theory Spec2Isabelle
  imports Complex_Main
begin

section \<open>Numbers and arrays\<close>

text \<open>
  The module \<^verbatim>\<open>colour/tensor.py\<close> computes with numpy arrays of IEEE doubles. A finite
  double is idealised as a real number (rounding and overflow are left out). numpy never
  raises on a division by zero or on the square root of a negative number: it stores
  \<^verbatim>\<open>inf\<close> or \<^verbatim>\<open>nan\<close>. Such a non-finite array entry is the value \<open>None\<close> here, and every
  operation of the module maps a non-finite operand to a non-finite result (no finite number
  is ever divided by an infinite one), so \<open>None\<close> is absorbing.
\<close>

type_synonym fl = "real option"

text \<open>A row of an array of shape (N, 3): the three coordinates of one colour point.\<close>

type_synonym vec3 = "real \<times> real \<times> real"

text \<open>A matrix of a batch of shape (N, 3, 3), as rows of entries.\<close>

type_synonym matrix = "fl list list"

datatype error = ValueError | IndexError | AttributeError

definition bind_err :: "error + 'a \<Rightarrow> ('a \<Rightarrow> error + 'b) \<Rightarrow> error + 'b" where
  "bind_err r f = (case r of Inl e \<Rightarrow> Inl e | Inr x \<Rightarrow> f x)"

text \<open>\<^verbatim>\<open>x / y\<close> on doubles: a zero divisor gives \<^verbatim>\<open>inf\<close> or \<^verbatim>\<open>nan\<close>.\<close>

definition np_divide :: "real \<Rightarrow> real \<Rightarrow> fl" where
  "np_divide x y = (if y = 0 then None else Some (x / y))"

text \<open>\<^verbatim>\<open>np.sqrt(x)\<close>: \<^verbatim>\<open>nan\<close> on a negative argument.\<close>

definition np_sqrt :: "real \<Rightarrow> fl" where
  "np_sqrt x = (if x < 0 then None else Some (sqrt x))"

text \<open>\<^verbatim>\<open>x**(-2)\<close> on an array of doubles: \<^verbatim>\<open>inf\<close> at zero.\<close>

definition np_pow_neg2 :: "real \<Rightarrow> fl" where
  "np_pow_neg2 x = (if x = 0 then None else Some (x powi (- 2)))"

definition rad2deg :: "real \<Rightarrow> real" where
  "rad2deg x = x * (180 / pi)"

definition deg2rad :: "real \<Rightarrow> real" where
  "deg2rad x = x * (pi / 180)"

text \<open>The columns \<^verbatim>\<open>a[:, 0]\<close>, \<^verbatim>\<open>a[:, 1]\<close>, \<^verbatim>\<open>a[:, 2]\<close> of an array of shape (N, 3), on one row.\<close>

definition col0 :: "vec3 \<Rightarrow> real" where
  "col0 v = fst v"

definition col1 :: "vec3 \<Rightarrow> real" where
  "col1 v = fst (snd v)"

definition col2 :: "vec3 \<Rightarrow> real" where
  "col2 v = snd (snd v)"

text \<open>
  Boolean-mask indexing. \<^verbatim>\<open>a[mask]\<close> selects the entries under a true mask bit, in order.
  \<^verbatim>\<open>a[mask] = vs\<close> writes the values, in order, to those entries; numpy raises IndexError
  when the mask has another length than the array, and ValueError when the number of values
  is neither the number of selected entries nor one (a single value is broadcast).
\<close>

definition mask_get :: "'a list \<Rightarrow> bool list \<Rightarrow> 'a list" where
  "mask_get xs m = map fst (filter snd (zip xs m))"

fun mask_put :: "'a list \<Rightarrow> bool list \<Rightarrow> 'a list \<Rightarrow> 'a list" where
  "mask_put (x # xs) (b # bs) vs =
     (if b then (case vs of v # vs' \<Rightarrow> v # mask_put xs bs vs' | [] \<Rightarrow> x # mask_put xs bs [])
      else x # mask_put xs bs vs)"
| "mask_put xs bs vs = xs"

definition mask_set :: "'a list \<Rightarrow> bool list \<Rightarrow> 'a list \<Rightarrow> error + 'a list" where
  "mask_set xs m vs =
     (let n = length (filter id m) in
      if length m \<noteq> length xs then Inl IndexError
      else if length vs = n then Inr (mask_put xs m vs)
      else if length vs = 1 then Inr (mask_put xs m (replicate n (hd vs)))
      else Inl ValueError)"

text \<open>
  \<^verbatim>\<open>g[:, r, c] = vs\<close> on a batch of matrices: entry (r, c) of the i-th matrix becomes the
  i-th value. numpy raises IndexError when (r, c) is outside a matrix and ValueError when
  the number of values is neither the number of matrices nor one.
\<close>

definition entry_put :: "matrix \<Rightarrow> nat \<Rightarrow> nat \<Rightarrow> fl \<Rightarrow> matrix" where
  "entry_put m r c v = m[r := (m ! r)[c := v]]"

definition in_matrix :: "matrix \<Rightarrow> nat \<Rightarrow> nat \<Rightarrow> bool" where
  "in_matrix m r c \<longleftrightarrow> r < length m \<and> c < length (m ! r)"

definition col_set :: "matrix list \<Rightarrow> nat \<Rightarrow> nat \<Rightarrow> fl list \<Rightarrow> error + matrix list" where
  "col_set g r c vs =
     (if \<not> list_all (\<lambda>m. in_matrix m r c) g then Inl IndexError
      else if length vs = length g then Inr (map2 (\<lambda>m v. entry_put m r c v) g vs)
      else if length vs = 1 then Inr (map (\<lambda>m. entry_put m r c (hd vs)) g)
      else Inl ValueError)"

text \<open>\<^verbatim>\<open>g[i, r, c] = v\<close>: IndexError outside the batch.\<close>

definition entry_set :: "matrix list \<Rightarrow> nat \<Rightarrow> nat \<Rightarrow> nat \<Rightarrow> fl \<Rightarrow> error + matrix list" where
  "entry_set g i r c v =
     (if i < length g \<and> in_matrix (g ! i) r c then Inr (g[i := entry_put (g ! i) r c v])
      else Inl IndexError)"

text \<open>\<^verbatim>\<open>d[i]\<close>, a row of an array of shape (N, 3): IndexError outside the array.\<close>

definition row :: "vec3 list \<Rightarrow> nat \<Rightarrow> error + vec3" where
  "row d i = (if i < length d then Inr (d ! i) else Inl IndexError)"

text \<open>A \<^verbatim>\<open>for\<close> loop over a list of indices whose body may raise.\<close>

fun for_range :: "(nat \<Rightarrow> 's \<Rightarrow> error + 's) \<Rightarrow> nat list \<Rightarrow> 's \<Rightarrow> error + 's" where
  "for_range body [] s = Inr s"
| "for_range body (i # ixs) s = bind_err (body i s) (for_range body ixs)"

text \<open>\<^verbatim>\<open>np.eye(n)\<close>.\<close>

definition eye :: "nat \<Rightarrow> matrix" where
  "eye n = map (\<lambda>i. map (\<lambda>j. if i = j then Some 1 else Some 0) [0..<n]) [0..<n]"


section \<open>The collaborators: colour spaces, sample batches, tensor results\<close>

text \<open>
  Modelled from the spec: the classes \<^verbatim>\<open>space.Space\<close>, \<^verbatim>\<open>data.Data\<close> and
  \<^verbatim>\<open>data.TensorData\<close> and the colour-space constants of \<^verbatim>\<open>colour/space.py\<close> are not part
  of the module. A colour space is an identifier; a Poincare-disk space carries its radius of
  curvature as the attribute \<^verbatim>\<open>R\<close>, which other spaces do not have. A sample batch holds its
  N points in XYZ (\<^verbatim>\<open>dat.linear_XYZ\<close>, shape (N, 3)) and answers \<^verbatim>\<open>dat.get_linear(sp)\<close> with
  the coordinates of its points in the space \<^verbatim>\<open>sp\<close>. A tensor result is the triple of the
  native colour space, the originating sample batch and the batch of matrices.
\<close>

record Space =
  space_name :: string
  R :: "real option"

record Data =
  linear_XYZ :: "vec3 list"
  get_linear :: "Space \<Rightarrow> vec3 list"

record TensorData =
  tensor_space :: Space
  tensor_points :: Data
  tensor_batch :: "matrix list"

text \<open>
  Modelled from the spec: \<^verbatim>\<open>sp.empty_matrix(ndata)\<close> allocates a zero batch of N 3x3
  matrices shaped like the batch \<^verbatim>\<open>ndata\<close> of N rows.
\<close>

definition empty_matrix :: "Space \<Rightarrow> vec3 list \<Rightarrow> matrix list" where
  "empty_matrix sp ndata = replicate (length ndata) (replicate 3 (replicate 3 (Some 0)))"

text \<open>Modelled from the spec: the colour spaces that the named builders select.\<close>

definition cielab :: Space where
  "cielab = \<lparr>space_name = ''cielab'', R = None\<rparr>"

definition cieluv :: Space where
  "cieluv = \<lparr>space_name = ''cieluv'', R = None\<rparr>"

definition lgj_e :: Space where
  "lgj_e = \<lparr>space_name = ''lgj_e'', R = None\<rparr>"

definition din99 :: Space where
  "din99 = \<lparr>space_name = ''din99'', R = None\<rparr>"

definition din99b :: Space where
  "din99b = \<lparr>space_name = ''din99b'', R = None\<rparr>"

definition din99c :: Space where
  "din99c = \<lparr>space_name = ''din99c'', R = None\<rparr>"

definition din99d :: Space where
  "din99d = \<lparr>space_name = ''din99d'', R = None\<rparr>"

definition ciede00lch :: Space where
  "ciede00lch = \<lparr>space_name = ''ciede00lch'', R = None\<rparr>"


section \<open>The Euclidean family\<close>

text \<open>
  \<^verbatim>\<open>g = sp.empty_matrix(dat.linear_XYZ)\<close>, then the loop
  \<^verbatim>\<open>for i in range(np.shape(g)[0]): g[i] = np.eye(3)\<close>. The index runs below the length
  of \<^verbatim>\<open>g\<close>, so no assignment is out of range.
\<close>

definition euclidean :: "Space \<Rightarrow> Data \<Rightarrow> TensorData" where
  "euclidean sp dat =
     (let g = empty_matrix sp (linear_XYZ dat);
          g = fold (\<lambda>i g. g[i := eye 3]) [0..<length g] g
      in \<lparr>tensor_space = sp, tensor_points = dat, tensor_batch = g\<rparr>)"

definition dE_ab :: "Data \<Rightarrow> TensorData" where
  "dE_ab dat = euclidean cielab dat"

definition dE_uv :: "Data \<Rightarrow> TensorData" where
  "dE_uv dat = euclidean cieluv dat"

definition dE_E :: "Data \<Rightarrow> TensorData" where
  "dE_E dat = euclidean lgj_e dat"

definition dE_DIN99 :: "Data \<Rightarrow> TensorData" where
  "dE_DIN99 dat = euclidean din99 dat"

definition dE_DIN99b :: "Data \<Rightarrow> TensorData" where
  "dE_DIN99b dat = euclidean din99b dat"

definition dE_DIN99c :: "Data \<Rightarrow> TensorData" where
  "dE_DIN99c dat = euclidean din99c dat"

definition dE_DIN99d :: "Data \<Rightarrow> TensorData" where
  "dE_DIN99d dat = euclidean din99d dat"

section \<open>The Riemannised CIEDE2000 metric\<close>

text \<open>
  The body of \<^verbatim>\<open>dE_00\<close>, line by line. An expression on whole arrays is the map of the
  expression on their entries. \<^verbatim>\<open>S_L\<close> and \<^verbatim>\<open>R_C\<close> divide and take a square root, so
  their entries are of type \<^typ>\<open>fl\<close>.
\<close>

text \<open>
  \<^verbatim>\<open>h_deg = np.rad2deg(h)\<close> and \<^verbatim>\<open>h_deg[h_deg < 0] = h_deg[h_deg < 0] + 360\<close>.
\<close>

definition dE_00_h_deg :: "real list \<Rightarrow> error + real list" where
  "dE_00_h_deg h =
     (let h_deg = map rad2deg h;
          neg = map (\<lambda>x. x < 0) h_deg
      in mask_set h_deg neg (map (\<lambda>x. x + 360) (mask_get h_deg neg)))"

text \<open>
  The array \<^verbatim>\<open>T\<close>, from the arrays \<^verbatim>\<open>h_deg\<close> and \<^verbatim>\<open>h\<close>, and the rest of the body. The
  library function \<^verbatim>\<open>np.cos\<close> is the parameter \<open>np_cos\<close> of both, so that a statement can
  tell which angle each cosine of \<^verbatim>\<open>T\<close> is taken of: the cosine of the reals has a period
  and does not tell an angle from the angle a full turn further, which a function on doubles
  does.
\<close>

definition dE_00_T_with :: "(real \<Rightarrow> real) \<Rightarrow> real list \<Rightarrow> real list \<Rightarrow> real list" where
  "dE_00_T_with np_cos h_deg h =
     map2 (\<lambda>hdeg h. 1 - 0.17 * np_cos (deg2rad (hdeg - 30))
                       + 0.24 * np_cos (2 * h)
                       + 0.32 * np_cos (deg2rad (3 * hdeg + 6))
                       - 0.2 * np_cos (deg2rad (4 * hdeg - 63))) h_deg h"

definition dE_00_with ::
  "(real \<Rightarrow> real) \<Rightarrow> Data \<Rightarrow> real \<Rightarrow> real \<Rightarrow> real \<Rightarrow> error + TensorData" where
  "dE_00_with np_cos dat k_L k_C k_h =
     (let lch = get_linear dat ciede00lch;
          L = map col0 lch;
          C = map col1 lch;
          h = map col2 lch
      in bind_err (dE_00_h_deg h) (\<lambda>h_deg.
     (let S_L = map (\<lambda>l. Option.bind (np_sqrt (20 + (l - 50)^2)) (\<lambda>s.
                        map_option (\<lambda>q. 1 + q) (np_divide (0.015 * (l - 50)^2) s))) L;
          S_C = map (\<lambda>c. 1 + 0.045 * c) C;
          T = dE_00_T_with np_cos h_deg h;
          S_h = map2 (\<lambda>c t. 1 + 0.015 * c * t) C T;
          R_C = map (\<lambda>c. map_option (\<lambda>s. 2 * s)
                        (Option.bind (np_divide (c^7) (c^7 + 25^7)) np_sqrt)) C;
          d_theta = map (\<lambda>hdeg. 30 * exp (- (((hdeg - 275) / 25)^2))) h_deg;
          R_T = map2 (\<lambda>rc dt. map_option (\<lambda>r. - r * sin (deg2rad (2 * dt))) rc) R_C d_theta;
          g = empty_matrix ciede00lch lch;
          off = map (\<lambda>(c, rt, sc, sh). Option.bind rt (\<lambda>r.
                       np_divide (0.5 * c * r) (k_C * sc * k_h * sh)))
                    (zip C (zip R_T (zip S_C S_h)))
      in bind_err (col_set g 0 0
                     (map (\<lambda>sl. Option.bind sl (\<lambda>s. np_pow_neg2 (k_L * s))) S_L)) (\<lambda>g.
         bind_err (col_set g 1 1 (map (\<lambda>sc. np_pow_neg2 (k_C * sc)) S_C)) (\<lambda>g.
         bind_err (col_set g 2 2
                     (map2 (\<lambda>c sh. map_option (\<lambda>p. c^2 * p) (np_pow_neg2 (k_h * sh))) C S_h)) (\<lambda>g.
         bind_err (col_set g 1 2 off) (\<lambda>g.
         bind_err (col_set g 2 1 off) (\<lambda>g.
         Inr \<lparr>tensor_space = ciede00lch, tensor_points = dat, tensor_batch = g\<rparr>))))))))"

text \<open>\<^verbatim>\<open>dE_00\<close> itself: the body at the cosine.\<close>

definition dE_00 :: "Data \<Rightarrow> real \<Rightarrow> real \<Rightarrow> real \<Rightarrow> error + TensorData" where
  "dE_00 dat k_L k_C k_h = dE_00_with cos dat k_L k_C k_h"

text \<open>The call \<^verbatim>\<open>dE_00(dat)\<close> with the default weights \<^verbatim>\<open>k_L=1, k_C=1, k_h=1\<close>.\<close>

definition dE_00_default :: "Data \<Rightarrow> error + TensorData" where
  "dE_00_default dat = dE_00 dat 1 1 1"



section \<open>The Poincare disk metric\<close>

text \<open>
  The body of the loop of \<^verbatim>\<open>poincare_disk\<close> at index \<^verbatim>\<open>i\<close>. The attribute \<^verbatim>\<open>sp.R\<close> is read
  in the second and in the third assignment; a space without it raises AttributeError there.
\<close>

definition get_R :: "Space \<Rightarrow> error + real" where
  "get_R sp = (case R sp of None \<Rightarrow> Inl AttributeError | Some r \<Rightarrow> Inr r)"

definition poincare_body :: "Space \<Rightarrow> vec3 list \<Rightarrow> nat \<Rightarrow> matrix list \<Rightarrow> error + matrix list" where
  "poincare_body sp d i g =
     bind_err (entry_set g i 0 0 (Some 1)) (\<lambda>g.
     bind_err (get_R sp) (\<lambda>r.
     bind_err (row d i) (\<lambda>di.
     bind_err (entry_set g i 1 1 (np_divide (r^2 * 4) ((1 - (col1 di)^2 - (col2 di)^2)^2))) (\<lambda>g.
     bind_err (get_R sp) (\<lambda>r.
     bind_err (row d i) (\<lambda>di.
     entry_set g i 2 2 (np_divide (r^2 * 4) ((1 - (col1 di)^2 - (col2 di)^2)^2))))))))"

definition poincare_disk :: "Space \<Rightarrow> Data \<Rightarrow> error + TensorData" where
  "poincare_disk sp dat =
     (let d = get_linear dat sp;
          g = empty_matrix sp d
      in bind_err (for_range (poincare_body sp d) [0..<length g] g) (\<lambda>g.
         Inr \<lparr>tensor_space = sp, tensor_points = dat, tensor_batch = g\<rparr>))"


section \<open>The formulas of the specification\<close>

text \<open>The shape (N, 3, 3) of a batch of matrices.\<close>

definition has_shape :: "matrix list \<Rightarrow> nat \<Rightarrow> bool" where
  "has_shape g n \<longleftrightarrow>
     length g = n \<and> list_all (\<lambda>m. length m = 3 \<and> list_all (\<lambda>r. length r = 3) m) g"

text \<open>
  The comparison \<^verbatim>\<open>x == y\<close> of two entries. A \<^verbatim>\<open>nan\<close> is unequal to every double, itself
  included; as \<open>None\<close> stands for \<^verbatim>\<open>nan\<close> as well as for \<^verbatim>\<open>inf\<close>, only two finite entries
  are found equal.
\<close>

definition fl_eq :: "fl \<Rightarrow> fl \<Rightarrow> bool" where
  "fl_eq x y = (case x of None \<Rightarrow> False
                | Some a \<Rightarrow> (case y of None \<Rightarrow> False | Some b \<Rightarrow> a = b))"

text \<open>A matrix with \<open>g[i,j] == g[j,i]\<close> for all i, j in {0, 1, 2}.\<close>

definition symmetric :: "matrix \<Rightarrow> bool" where
  "symmetric m \<longleftrightarrow> list_all (\<lambda>i. list_all (\<lambda>j. fl_eq (m ! i ! j) (m ! j ! i)) [0..<3]) [0..<3]"


text \<open>
  Step 2 of the algorithm: the hue in degrees, with 360 added to a negative value.
\<close>

definition spec_h_deg :: "real \<Rightarrow> real" where
  "spec_h_deg h = (if rad2deg h < 0 then rad2deg h + 360 else rad2deg h)"

text \<open>
  Step 3 of the algorithm: the correction scalars of a point (L, C, h), as the specification
  writes them. \<open>R_C\<close> is the only one with a division by a quantity that may vanish and a
  square root of a quantity that may be negative (both for a negative chroma only).
\<close>

definition spec_S_L :: "real \<Rightarrow> real" where
  "spec_S_L L = 1 + 0.015 * (L - 50)^2 / sqrt (20 + (L - 50)^2)"

definition spec_S_C :: "real \<Rightarrow> real" where
  "spec_S_C C = 1 + 0.045 * C"

definition spec_T :: "real \<Rightarrow> real" where
  "spec_T h = 1 - 0.17 * cos (deg2rad (spec_h_deg h - 30))
                + 0.24 * cos (2 * h)
                + 0.32 * cos (deg2rad (3 * spec_h_deg h + 6))
                - 0.20 * cos (deg2rad (4 * spec_h_deg h - 63))"

definition spec_S_h :: "real \<Rightarrow> real \<Rightarrow> real" where
  "spec_S_h C h = 1 + 0.015 * C * spec_T h"

definition spec_R_C :: "real \<Rightarrow> real" where
  "spec_R_C C = 2 * sqrt (C^7 / (C^7 + 25^7))"

definition spec_d_theta :: "real \<Rightarrow> real" where
  "spec_d_theta h = 30 * exp (- (((spec_h_deg h - 275) / 25)^2))"

definition spec_R_T :: "real \<Rightarrow> real \<Rightarrow> real" where
  "spec_R_T C h = - spec_R_C C * sin (deg2rad (2 * spec_d_theta h))"

text \<open>
  \<open>R_C\<close> and \<open>R_T\<close> in the arithmetic of the arrays: not finite where the quotient under the
  square root has a zero divisor or is negative.
\<close>

definition fl_R_C :: "real \<Rightarrow> fl" where
  "fl_R_C C = map_option (\<lambda>s. 2 * s) (Option.bind (np_divide (C^7) (C^7 + 25^7)) np_sqrt)"

definition fl_R_T :: "real \<Rightarrow> real \<Rightarrow> fl" where
  "fl_R_T C h = map_option (\<lambda>r. - r * sin (deg2rad (2 * spec_d_theta h))) (fl_R_C C)"

text \<open>Multiplying a tensor entry by a factor; a non-finite entry stays non-finite.\<close>

definition scaled :: "real \<Rightarrow> fl \<Rightarrow> fl" where
  "scaled a x = map_option (\<lambda>v. a * v) x"

text \<open>Step 4: the entries of the tensor of a point, in the arithmetic of the arrays.\<close>

definition spec_g00 :: "real \<Rightarrow> real \<Rightarrow> fl" where
  "spec_g00 k_L L = np_pow_neg2 (k_L * spec_S_L L)"

definition spec_g11 :: "real \<Rightarrow> real \<Rightarrow> fl" where
  "spec_g11 k_C C = np_pow_neg2 (k_C * spec_S_C C)"

definition spec_g22 :: "real \<Rightarrow> real \<Rightarrow> real \<Rightarrow> fl" where
  "spec_g22 k_h C h = scaled (C^2) (np_pow_neg2 (k_h * spec_S_h C h))"

definition spec_g12 :: "real \<Rightarrow> real \<Rightarrow> real \<Rightarrow> real \<Rightarrow> fl" where
  "spec_g12 k_C k_h C h =
     Option.bind (fl_R_T C h) (\<lambda>r.
       np_divide (0.5 * C * r) (k_C * spec_S_C C * k_h * spec_S_h C h))"

definition spec_tensor :: "real \<Rightarrow> real \<Rightarrow> real \<Rightarrow> vec3 \<Rightarrow> matrix" where
  "spec_tensor k_L k_C k_h p =
     (case p of (L, C, h) \<Rightarrow>
        [[spec_g00 k_L L, Some 0, Some 0],
         [Some 0, spec_g11 k_C C, spec_g12 k_C k_h C h],
         [Some 0, spec_g12 k_C k_h C h, spec_g22 k_h C h]])"

text \<open>\<open>T\<close> and the tensor of a point, with \<open>np_cos\<close> for the cosine.\<close>

definition spec_T_with :: "(real \<Rightarrow> real) \<Rightarrow> real \<Rightarrow> real" where
  "spec_T_with np_cos h = 1 - 0.17 * np_cos (deg2rad (spec_h_deg h - 30))
                            + 0.24 * np_cos (2 * h)
                            + 0.32 * np_cos (deg2rad (3 * spec_h_deg h + 6))
                            - 0.20 * np_cos (deg2rad (4 * spec_h_deg h - 63))"

definition spec_tensor_with :: "(real \<Rightarrow> real) \<Rightarrow> real \<Rightarrow> real \<Rightarrow> real \<Rightarrow> vec3 \<Rightarrow> matrix" where
  "spec_tensor_with np_cos k_L k_C k_h p =
     (case p of (L, C, h) \<Rightarrow>
        [[spec_g00 k_L L, Some 0, Some 0],
         [Some 0, spec_g11 k_C C,
          Option.bind (fl_R_T C h) (\<lambda>r.
            np_divide (0.5 * C * r)
              (k_C * spec_S_C C * k_h * (1 + 0.015 * C * spec_T_with np_cos h)))],
         [Some 0,
          Option.bind (fl_R_T C h) (\<lambda>r.
            np_divide (0.5 * C * r)
              (k_C * spec_S_C C * k_h * (1 + 0.015 * C * spec_T_with np_cos h))),
          scaled (C^2) (np_pow_neg2 (k_h * (1 + 0.015 * C * spec_T_with np_cos h)))]])"

text \<open>The tensor of the Poincare disk of radius r at the disk coordinates (d0, d1, d2).\<close>

definition spec_disk_entry :: "real \<Rightarrow> real \<Rightarrow> real \<Rightarrow> fl" where
  "spec_disk_entry r d1 d2 = np_divide (4 * r^2) ((1 - d1^2 - d2^2)^2)"

definition spec_disk_tensor :: "real \<Rightarrow> vec3 \<Rightarrow> matrix" where
  "spec_disk_tensor r p =
     (case p of (d0, d1, d2) \<Rightarrow>
        [[Some 1, Some 0, Some 0],
         [Some 0, spec_disk_entry r d1 d2, Some 0],
         [Some 0, Some 0, spec_disk_entry r d1 d2]])"


section \<open>Properties of the Euclidean family\<close>

lemma eye_3: "eye 3 = [[Some 1, Some 0, Some 0], [Some 0, Some 1, Some 0], [Some 0, Some 0, Some 1]]"
  by (simp add: eye_def upt_rec)

lemma fill_loop_prefix:
  "n \<le> length g \<Longrightarrow> fold (\<lambda>i g. g[i := e]) [0..<n] g = replicate n e @ drop n g"
proof (induction n)
  case 0
  show ?case by simp
next
  case (Suc n)
  then have "n < length g" by simp
  then have "(replicate n e @ drop n g)[n := e] = replicate n e @ e # drop (Suc n) g"
    by (simp add: list_update_append Cons_nth_drop_Suc [symmetric])
  with Suc show ?case
    by (simp add: replicate_append_same)
qed

lemma fill_loop: "fold (\<lambda>i g. g[i := e]) [0..<length g] g = replicate (length g) e"
  using fill_loop_prefix [of "length g" g e] by simp

lemma euclidean_batch:
  "tensor_batch (euclidean sp dat) = replicate (length (linear_XYZ dat)) (eye 3)"
proof -
  have "length (empty_matrix sp (linear_XYZ dat)) = length (linear_XYZ dat)"
    by (simp add: empty_matrix_def)
  then show ?thesis
    using fill_loop [of "eye 3" "empty_matrix sp (linear_XYZ dat)"]
    by (simp add: euclidean_def Let_def)
qed


section \<open>The array operations\<close>

lemma bind_err_Inr [simp]: "bind_err (Inr x) f = f x"
  by (simp add: bind_err_def)

lemma bind_err_Inl [simp]: "bind_err (Inl e) f = Inl e"
  by (simp add: bind_err_def)

lemma mask_put_get:
  "mask_put xs (map P xs) (map f (mask_get xs (map P xs))) = map (\<lambda>x. if P x then f x else x) xs"
  by (induction xs) (simp_all add: mask_get_def)

lemma mask_get_length:
  "length (mask_get xs (map P xs)) = length (filter id (map P xs))"
  by (induction xs) (simp_all add: mask_get_def)

lemma mask_set_where:
  "mask_set xs (map P xs) (map f (mask_get xs (map P xs)))
     = Inr (map (\<lambda>x. if P x then f x else x) xs)"
  by (simp add: mask_set_def mask_put_get mask_get_length Let_def)

lemma in_matrix_entry_put [simp]:
  "in_matrix (entry_put m r' c' v) r c = in_matrix m r c"
  by (cases "r = r'") (auto simp: in_matrix_def entry_put_def)

lemma in_matrix_zero [simp]:
  "in_matrix (replicate 3 (replicate 3 z)) r c \<longleftrightarrow> r < 3 \<and> c < 3"
  by (auto simp: in_matrix_def)

lemma col_set_map:
  assumes "\<And>x. x \<in> set xs \<Longrightarrow> in_matrix (f x) r c"
  shows "col_set (map f xs) r c (map v xs) = Inr (map (\<lambda>x. entry_put (f x) r c (v x)) xs)"
  using assms by (simp add: col_set_def list_all_iff zip_map_map zip_same_conv_map)

lemma empty_matrix_map:
  "empty_matrix sp xs = map (\<lambda>x. replicate 3 (replicate 3 (Some 0))) xs"
  by (simp add: empty_matrix_def map_replicate_const)

lemma for_range_snoc:
  "for_range body (ixs @ [i]) s = bind_err (for_range body ixs s) (body i)"
proof (induction ixs arbitrary: s)
  case Nil
  show ?case by (cases "body i s") simp_all
next
  case (Cons j ixs)
  then show ?case by (cases "body j s") simp_all
qed


section \<open>The CIEDE2000 builder, point by point\<close>

lemma dE_00_h_deg_closed: "dE_00_h_deg h = Inr (map spec_h_deg h)"
  unfolding dE_00_h_deg_def Let_def mask_set_where
  by (simp add: spec_h_deg_def o_def)

lemma np_sqrt_S_L [simp]: "np_sqrt (20 + (l - 50)^2) = Some (sqrt (20 + (l - 50)^2))"
  by (simp add: np_sqrt_def add_nonneg_nonneg not_less)

lemma np_divide_S_L [simp]:
  "np_divide x (sqrt (20 + (l - 50)^2)) = Some (x / sqrt (20 + (l - 50)^2))"
proof -
  have "0 < 20 + (l - 50)^2"
    by (rule add_pos_nonneg) simp_all
  then show ?thesis by (simp add: np_divide_def)
qed

lemma dE_00_T_with_closed:
  "dE_00_T_with np_cos (map spec_h_deg h) h = map (spec_T_with np_cos) h"
  by (simp add: dE_00_T_with_def spec_T_with_def zip_map1 zip_same_conv_map o_def)

text \<open>
  No assignment of the body fails, and the matrix of each point is the tensor of step 4 at
  the coordinates of the point.
\<close>

lemma dE_00_with_closed:
  "dE_00_with np_cos dat k_L k_C k_h =
     Inr \<lparr>tensor_space = ciede00lch, tensor_points = dat,
          tensor_batch = map (spec_tensor_with np_cos k_L k_C k_h) (get_linear dat ciede00lch)\<rparr>"
proof -
  define lch where "lch = get_linear dat ciede00lch"
  have h_deg: "dE_00_h_deg (map col2 lch) = Inr (map (\<lambda>p. spec_h_deg (col2 p)) lch)"
    by (simp add: dE_00_h_deg_closed o_def)
  have T: "dE_00_T_with np_cos (map (\<lambda>p. spec_h_deg (col2 p)) lch) (map col2 lch)
             = map (\<lambda>p. spec_T_with np_cos (col2 p)) lch"
    using dE_00_T_with_closed [of np_cos "map col2 lch"] by (simp add: o_def)
  show ?thesis
    unfolding dE_00_with_def Let_def lch_def [symmetric] h_deg bind_err_Inr T
    by (simp add: zip_map1 zip_map2 zip_same_conv_map empty_matrix_map col_set_map o_def
          split_beta)
       (simp add: entry_put_def numeral_3_eq_3 numeral_2_eq_2 spec_tensor_with_def spec_g00_def
          spec_g11_def spec_S_L_def spec_S_C_def fl_R_T_def fl_R_C_def spec_d_theta_def
          scaled_def col0_def col1_def col2_def split_beta)
qed

lemma spec_tensor_with_cos: "spec_tensor_with cos k_L k_C k_h p = spec_tensor k_L k_C k_h p"
  by (cases p)
     (simp add: spec_tensor_with_def spec_tensor_def spec_g22_def spec_g12_def spec_S_h_def
        spec_T_with_def spec_T_def)

lemma dE_00_closed:
  "dE_00 dat k_L k_C k_h =
     Inr \<lparr>tensor_space = ciede00lch, tensor_points = dat,
          tensor_batch = map (spec_tensor k_L k_C k_h) (get_linear dat ciede00lch)\<rparr>"
  by (simp add: dE_00_def dE_00_with_closed spec_tensor_with_cos)


section \<open>The Poincare disk builder, point by point\<close>

lemma poincare_body_step:
  assumes "i < length g" and "g ! i = replicate 3 (replicate 3 (Some 0))"
    and "i < length d" and "R sp = Some r"
  shows "poincare_body sp d i g = Inr (g[i := spec_disk_tensor r (d ! i)])"
  using assms
  by (cases "d ! i")
     (simp add: poincare_body_def entry_set_def in_matrix_def entry_put_def get_R_def row_def
        spec_disk_tensor_def spec_disk_entry_def col1_def col2_def numeral_3_eq_3 numeral_2_eq_2
        mult.commute)

lemma poincare_loop:
  assumes "R sp = Some r" and "n \<le> length d"
  shows "for_range (poincare_body sp d) [0..<n]
            (replicate (length d) (replicate 3 (replicate 3 (Some 0))))
           = Inr (map (spec_disk_tensor r) (take n d)
                  @ replicate (length d - n) (replicate 3 (replicate 3 (Some 0))))"
  using assms(2)
proof (induction n)
  case 0
  show ?case by simp
next
  case (Suc n)
  let ?z = "replicate 3 (replicate 3 (Some 0 :: fl))"
  let ?g = "map (spec_disk_tensor r) (take n d) @ replicate (length d - n) ?z"
  from Suc.prems have n: "n < length d" by simp
  then have rest: "replicate (length d - n) ?z = ?z # replicate (length d - Suc n) ?z"
    by (simp add: Suc_diff_Suc replicate_Suc [symmetric] del: replicate_Suc)
  have len: "length (map (spec_disk_tensor r) (take n d)) = n"
    using n by simp
  have at: "?g ! n = ?z"
    using n len by (simp add: nth_append)
  have "poincare_body sp d n ?g = Inr (?g[n := spec_disk_tensor r (d ! n)])"
    using n at by (intro poincare_body_step assms(1)) simp_all
  also have "?g[n := spec_disk_tensor r (d ! n)]
      = map (spec_disk_tensor r) (take (Suc n) d) @ replicate (length d - Suc n) ?z"
    using n len by (simp add: rest list_update_append take_Suc_conv_app_nth del: replicate_Suc)
  finally show ?case
    using Suc.IH n by (simp add: for_range_snoc del: replicate_Suc)
qed

text \<open>With a radius of curvature the loop runs through and fills every matrix.\<close>

lemma poincare_disk_closed:
  assumes "R sp = Some r"
  shows "poincare_disk sp dat =
           Inr \<lparr>tensor_space = sp, tensor_points = dat,
                tensor_batch = map (spec_disk_tensor r) (get_linear dat sp)\<rparr>"
  using poincare_loop [OF assms, of "length (get_linear dat sp)" "get_linear dat sp"]
  by (simp add: poincare_disk_def empty_matrix_def Let_def)



section \<open>Shape and symmetry\<close>

lemma has_shape_replicate:
  "length m = 3 \<Longrightarrow> list_all (\<lambda>r. length r = 3) m \<Longrightarrow> has_shape (replicate n m) n"
  by (simp add: has_shape_def list_all_iff)



lemma symmetric_iff:
  "symmetric m \<longleftrightarrow> (\<forall>i<3. \<forall>j<3. fl_eq (m ! i ! j) (m ! j ! i))"
  by (auto simp: symmetric_def list_all_iff)





section \<open>The claims on the Euclidean family\<close>

text \<open>
  C6. For every colour space \<open>sp\<close> and every sample batch of N points, \<open>euclidean sp dat\<close>,
  and so each of the named builders \<open>dE_ab\<close>, \<open>dE_uv\<close>, \<open>dE_E\<close>, \<open>dE_DIN99\<close>, \<open>dE_DIN99b\<close>,
  \<open>dE_DIN99c\<close>, \<open>dE_DIN99d\<close>, returns a batch of matrices of shape (N, 3, 3) in which every
  matrix is exactly the 3x3 identity.
\<close>

theorem euclidean_identity:
  "list_all (\<lambda>builder.
       tensor_batch (builder dat) = replicate (length (linear_XYZ dat))
          [[Some 1, Some 0, Some 0], [Some 0, Some 1, Some 0], [Some 0, Some 0, Some 1]]
     \<and> has_shape (tensor_batch (builder dat)) (length (linear_XYZ dat)))
     [euclidean sp, dE_ab, dE_uv, dE_E, dE_DIN99, dE_DIN99b, dE_DIN99c, dE_DIN99d]"
  by (simp add: dE_ab_def dE_uv_def dE_E_def dE_DIN99_def dE_DIN99b_def dE_DIN99c_def
        dE_DIN99d_def euclidean_batch eye_3 has_shape_replicate)

theorem euclidean_identity_witness:
  "tensor_batch (dE_ab \<lparr>linear_XYZ = [(1, 2, 3), (4, 5, 6)], get_linear = (\<lambda>sp. [])\<rparr>)
     = [[[Some 1, Some 0, Some 0], [Some 0, Some 1, Some 0], [Some 0, Some 0, Some 1]],
        [[Some 1, Some 0, Some 0], [Some 0, Some 1, Some 0], [Some 0, Some 0, Some 1]]]"
  using euclidean_identity
    [of "\<lparr>linear_XYZ = [(1, 2, 3), (4, 5, 6)], get_linear = (\<lambda>sp. [])\<rparr>" cielab]
  by (simp add: numeral_2_eq_2)

text \<open>
  C10. The batch of matrices of \<open>euclidean\<close>, and of every named builder of the family,
  depends only on the number N of points of the sample batch: two batches with the same
  number of points get identical matrices, whatever their coordinates and the colour space.
  The builder never asks the batch for its coordinates in the space \<open>sp\<close>: replacing the
  method \<open>get_linear\<close> of the batch changes nothing.
\<close>

theorem euclidean_size_only:
  assumes "length (linear_XYZ dat) = length (linear_XYZ dat')"
  shows "tensor_batch (euclidean sp dat) = tensor_batch (euclidean sp' dat')
       \<and> list_all (\<lambda>builder. tensor_batch (builder dat) = tensor_batch (builder dat'))
           [dE_ab, dE_uv, dE_E, dE_DIN99, dE_DIN99b, dE_DIN99c, dE_DIN99d]
       \<and> tensor_batch (euclidean sp (dat\<lparr>get_linear := coords\<rparr>))
           = tensor_batch (euclidean sp dat)"
  using assms
  by (simp add: dE_ab_def dE_uv_def dE_E_def dE_DIN99_def dE_DIN99b_def dE_DIN99c_def
        dE_DIN99d_def euclidean_batch)

theorem euclidean_size_only_witness:
  "tensor_batch (euclidean cielab \<lparr>linear_XYZ = [(1, 2, 3)], get_linear = (\<lambda>sp. [])\<rparr>)
     = tensor_batch
         (euclidean cieluv \<lparr>linear_XYZ = [(7, 8, 9)], get_linear = (\<lambda>sp. [(0, 0, 0)])\<rparr>)"
  using euclidean_size_only [of "\<lparr>linear_XYZ = [(1, 2, 3)], get_linear = (\<lambda>sp. [])\<rparr>"
      "\<lparr>linear_XYZ = [(7, 8, 9)], get_linear = (\<lambda>sp. [(0, 0, 0)])\<rparr>" cielab cieluv]
  by simp


section \<open>Finite correction scalars\<close>

text \<open>
  The correction scalars are finite and the divisors \<open>S_L\<close>, \<open>S_C\<close>, \<open>S_h\<close> are at least 1
  whenever the chroma is not negative, so that with nonzero weights every entry of the
  tensor is a finite number.
\<close>

lemma spec_T_lower: "0.07 \<le> spec_T h"
proof -
  have lin: "0.07 \<le> 1 - 0.17 * a + 0.24 * b + 0.32 * c - 0.20 * d"
    if "a \<le> 1" "- 1 \<le> b" "- 1 \<le> c" "d \<le> 1" for a b c d :: real
    using that by simp
  show ?thesis
    unfolding spec_T_def by (rule lin) simp_all
qed

lemma spec_S_L_ge_1: "1 \<le> spec_S_L L"
  by (simp add: spec_S_L_def)

lemma spec_S_C_ge_1: "0 \<le> C \<Longrightarrow> 1 \<le> spec_S_C C"
  by (simp add: spec_S_C_def)

lemma spec_S_h_ge_1:
  assumes "0 \<le> C"
  shows "1 \<le> spec_S_h C h"
proof -
  have "0 \<le> spec_T h"
    using spec_T_lower [of h] by simp
  with assms have "0 \<le> C * spec_T h" by simp
  then show ?thesis by (simp add: spec_S_h_def)
qed

lemma fl_R_C_finite:
  assumes "0 \<le> C"
  shows "fl_R_C C = Some (spec_R_C C)"
proof -
  from assms have nonneg: "0 \<le> C^7" by simp
  then have pos: "0 < C^7 + 25^7"
    by (rule add_nonneg_pos) simp
  with nonneg have "0 \<le> C^7 / (C^7 + 25^7)"
    by (simp only: divide_nonneg_pos)
  with pos show ?thesis
    by (simp add: fl_R_C_def spec_R_C_def np_divide_def np_sqrt_def not_less)
qed

lemma fl_R_T_finite: "0 \<le> C \<Longrightarrow> fl_R_T C h = Some (spec_R_T C h)"
  by (simp add: fl_R_T_def spec_R_T_def fl_R_C_finite)

lemma spec_tensor_finite:
  assumes "0 \<le> C" and "k_L \<noteq> 0" and "k_C \<noteq> 0" and "k_h \<noteq> 0"
  shows "spec_tensor k_L k_C k_h (L, C, h) =
           [[Some ((k_L * spec_S_L L) powi (- 2)), Some 0, Some 0],
            [Some 0, Some ((k_C * spec_S_C C) powi (- 2)),
             Some (0.5 * C * spec_R_T C h / (k_C * spec_S_C C * k_h * spec_S_h C h))],
            [Some 0, Some (0.5 * C * spec_R_T C h / (k_C * spec_S_C C * k_h * spec_S_h C h)),
             Some (C^2 * (k_h * spec_S_h C h) powi (- 2))]]"
proof -
  have "spec_S_L L \<noteq> 0" "spec_S_C C \<noteq> 0" "spec_S_h C h \<noteq> 0"
    using spec_S_L_ge_1 [of L] spec_S_C_ge_1 [OF assms(1)] spec_S_h_ge_1 [OF assms(1), of h]
    by simp_all
  with assms show ?thesis
    by (simp add: spec_tensor_def spec_g00_def spec_g11_def spec_g22_def spec_g12_def
          fl_R_T_finite np_pow_neg2_def np_divide_def scaled_def)
qed


text \<open>
  In exact arithmetic the term \<open>cos(2h)\<close> on the hue in radians has the value of the same
  term on the normalised degrees, since the two angles differ by a multiple of a full turn.
\<close>

lemma cos_2h_in_degrees: "cos (deg2rad (2 * spec_h_deg h)) = cos (2 * h)"
proof (cases "rad2deg h < 0")
  case True
  then have "deg2rad (2 * spec_h_deg h) = 2 * h + 2 * pi + 2 * pi"
    by (simp add: spec_h_deg_def deg2rad_def rad2deg_def field_simps)
  then have "cos (deg2rad (2 * spec_h_deg h)) = cos (2 * h + 2 * pi + 2 * pi)"
    by (simp only:)
  also have "\<dots> = cos (2 * h)"
    by (simp only: cos_periodic)
  finally show ?thesis .
next
  case False
  then have "deg2rad (2 * spec_h_deg h) = 2 * h"
    by (simp add: spec_h_deg_def deg2rad_def rad2deg_def)
  then show ?thesis by (simp only:)
qed

lemma spec_T_all_degrees:
  "spec_T h = 1 - 0.17 * cos (deg2rad (spec_h_deg h - 30))
                + 0.24 * cos (deg2rad (2 * spec_h_deg h))
                + 0.32 * cos (deg2rad (3 * spec_h_deg h + 6))
                - 0.20 * cos (deg2rad (4 * spec_h_deg h - 63))"
  by (simp only: spec_T_def cos_2h_in_degrees)

text \<open>
  With another function in the place of the cosine, here the identity, the all-degrees
  variant of \<open>T\<close> is another number than the \<open>T\<close> of the module.
\<close>

lemma all_degrees_variant_differs:
  "dE_00_T_with (\<lambda>x. x) [rad2deg (- 1) + 360] [- 1]
     \<noteq> [1 - 0.17 * deg2rad (rad2deg (- 1) + 360 - 30)
          + 0.24 * deg2rad (2 * (rad2deg (- 1) + 360))
          + 0.32 * deg2rad (3 * (rad2deg (- 1) + 360) + 6)
          - 0.20 * deg2rad (4 * (rad2deg (- 1) + 360) - 63)]"
proof -
  have "deg2rad (2 * (rad2deg (- 1) + 360)) = 2 * (- 1) + 4 * pi"
    by (simp add: deg2rad_def rad2deg_def field_simps)
  then show ?thesis
    by (simp add: dE_00_T_with_def) (simp add: field_simps)
qed

lemma fl_R_T_zero: "fl_R_T 0 h = Some 0"
  by (simp add: fl_R_T_def fl_R_C_def np_divide_def np_sqrt_def)

lemma spec_tensor_zero_chroma:
  assumes "k_C \<noteq> 0" and "k_h \<noteq> 0"
  shows "spec_tensor k_L k_C k_h (L, 0, h) =
           [[np_pow_neg2 (k_L * spec_S_L L), Some 0, Some 0],
            [Some 0, Some (k_C powi (- 2)), Some 0],
            [Some 0, Some 0, Some 0]]"
  using assms
  by (simp add: spec_tensor_def spec_g00_def spec_g11_def spec_g22_def spec_g12_def
        spec_S_C_def spec_S_h_def fl_R_T_zero np_pow_neg2_def np_divide_def scaled_def)

lemma spec_g00_weight:
  "k \<noteq> 0 \<Longrightarrow> spec_g00 k L = scaled (1 / k^2) (spec_g00 1 L)"
  by (simp add: spec_g00_def np_pow_neg2_def scaled_def power_int_minus power_mult_distrib
        field_simps)

lemma spec_g11_weight:
  "k \<noteq> 0 \<Longrightarrow> spec_g11 k C = scaled (1 / k^2) (spec_g11 1 C)"
  by (simp add: spec_g11_def np_pow_neg2_def scaled_def power_int_minus power_mult_distrib
        field_simps)

lemma spec_g22_weight:
  "k \<noteq> 0 \<Longrightarrow> spec_g22 k C h = scaled (1 / k^2) (spec_g22 1 C h)"
  by (simp add: spec_g22_def np_pow_neg2_def scaled_def power_int_minus power_mult_distrib
        field_simps)

lemma spec_g12_weight:
  "k_C \<noteq> 0 \<Longrightarrow> k_h \<noteq> 0 \<Longrightarrow> spec_g12 k_C k_h C h = scaled (1 / (k_C * k_h)) (spec_g12 1 1 C h)"
  by (cases "fl_R_T C h") (simp_all add: spec_g12_def np_divide_def scaled_def field_simps)


section \<open>The claims on the CIEDE2000 builder\<close>

text \<open>
  C1. For every sample batch and all weights \<open>k_L\<close>, \<open>k_C\<close>, \<open>k_h\<close> (1 by default),
  \<open>dE_00\<close> returns a tensor result tagged with the CIEDE2000 cylindrical space whose matrix
  at a point (L, C, h) has \<open>g[0,0] = (k_L S_L)^-2\<close>, \<open>g[1,1] = (k_C S_C)^-2\<close>,
  \<open>g[2,2] = C^2 (k_h S_h)^-2\<close>, \<open>g[1,2] = g[2,1] = 0.5 C R_T / (k_C S_C k_h S_h)\<close> and
  zero elsewhere, with the correction scalars of step 3 at that point. The entries are
  stated first in the arithmetic of the arrays, for all inputs, then as finite numbers for
  a chroma that is not negative and nonzero weights.
\<close>

theorem dE_00_tensor:
  assumes "i < length (get_linear dat ciede00lch)"
    and "get_linear dat ciede00lch ! i = (L, C, h)"
  shows "\<exists>g. dE_00 dat k_L k_C k_h
             = Inr \<lparr>tensor_space = ciede00lch, tensor_points = dat, tensor_batch = g\<rparr>
           \<and> dE_00_default dat = dE_00 dat 1 1 1
           \<and> length g = length (get_linear dat ciede00lch)
           \<and> g ! i =
               [[np_pow_neg2 (k_L * spec_S_L L), Some 0, Some 0],
                [Some 0, np_pow_neg2 (k_C * spec_S_C C),
                 Option.bind (fl_R_T C h) (\<lambda>R_T.
                   np_divide (0.5 * C * R_T) (k_C * spec_S_C C * k_h * spec_S_h C h))],
                [Some 0,
                 Option.bind (fl_R_T C h) (\<lambda>R_T.
                   np_divide (0.5 * C * R_T) (k_C * spec_S_C C * k_h * spec_S_h C h)),
                 scaled (C^2) (np_pow_neg2 (k_h * spec_S_h C h))]]
           \<and> (0 \<le> C \<and> k_L \<noteq> 0 \<and> k_C \<noteq> 0 \<and> k_h \<noteq> 0 \<longrightarrow>
                g ! i =
                  [[Some ((k_L * spec_S_L L) powi (- 2)), Some 0, Some 0],
                   [Some 0, Some ((k_C * spec_S_C C) powi (- 2)),
                    Some (0.5 * C * spec_R_T C h / (k_C * spec_S_C C * k_h * spec_S_h C h))],
                   [Some 0,
                    Some (0.5 * C * spec_R_T C h / (k_C * spec_S_C C * k_h * spec_S_h C h)),
                    Some (C^2 * (k_h * spec_S_h C h) powi (- 2))]])"
proof -
  have "spec_tensor k_L k_C k_h (L, C, h) =
          [[np_pow_neg2 (k_L * spec_S_L L), Some 0, Some 0],
           [Some 0, np_pow_neg2 (k_C * spec_S_C C),
            Option.bind (fl_R_T C h) (\<lambda>R_T.
              np_divide (0.5 * C * R_T) (k_C * spec_S_C C * k_h * spec_S_h C h))],
           [Some 0,
            Option.bind (fl_R_T C h) (\<lambda>R_T.
              np_divide (0.5 * C * R_T) (k_C * spec_S_C C * k_h * spec_S_h C h)),
            scaled (C^2) (np_pow_neg2 (k_h * spec_S_h C h))]]"
    by (simp add: spec_tensor_def spec_g00_def spec_g11_def spec_g22_def spec_g12_def)
  moreover note spec_tensor_finite [of C k_L k_C k_h L h]
  ultimately show ?thesis
    using assms by (simp add: dE_00_closed dE_00_default_def)
qed

theorem dE_00_tensor_witness:
  "\<exists>g. dE_00 \<lparr>linear_XYZ = [(1, 2, 3)], get_linear = (\<lambda>sp. [(50, 25, 0)])\<rparr> 2 1 1
          = Inr \<lparr>tensor_space = ciede00lch,
                 tensor_points = \<lparr>linear_XYZ = [(1, 2, 3)], get_linear = (\<lambda>sp. [(50, 25, 0)])\<rparr>,
                 tensor_batch = g\<rparr>
        \<and> length g = 1
        \<and> g ! 0 ! 0 = [Some (1 / 4), Some 0, Some 0]
        \<and> g ! 0 ! 1 ! 0 = Some 0
        \<and> g ! 0 ! 1 ! 1 = Some (64 / 289)
        \<and> g ! 0 ! 1 ! 2 = Some (0.5 * 25 * spec_R_T 25 0 / (1 * spec_S_C 25 * 1 * spec_S_h 25 0))
        \<and> g ! 0 ! 2 ! 2 = Some (25^2 * (1 * spec_S_h 25 0) powi (- 2))"
  using dE_00_tensor [of 0 "\<lparr>linear_XYZ = [(1, 2, 3)], get_linear = (\<lambda>sp. [(50, 25, 0)])\<rparr>"
      50 25 0 2 1 1]
  by (auto simp: spec_S_L_def spec_S_C_def power_int_minus power2_eq_square)

text \<open>
  C2. In \<open>dE_00\<close> the scalar \<open>T\<close> of every point is
  \<open>1 - 0.17 cos(deg2rad(h_deg - 30)) + 0.24 cos(2h) + 0.32 cos(deg2rad(3 h_deg + 6))
  - 0.20 cos(deg2rad(4 h_deg - 63))\<close>, where the term \<open>0.24 cos(2h)\<close> is on the hue h in
  radians and the three others are on the normalised degrees \<open>h_deg\<close> turned back into
  radians: this mixed form, and no all-radians or all-degrees variant. It is stated for
  every function \<open>np_cos\<close> in the place of the cosine, on the array \<open>T\<close> and on the entries
  \<open>g[2,2]\<close>, \<open>g[1,2]\<close>, \<open>g[2,1]\<close> of the result, which \<open>T\<close> enters through \<open>S_h\<close>; \<open>dE_00\<close> is
  the case of the cosine.
\<close>

theorem dE_00_T_mixed_units:
  assumes "i < length (get_linear dat ciede00lch)"
    and "get_linear dat ciede00lch ! i = (L, C, h)"
    and "h_deg = (if rad2deg h < 0 then rad2deg h + 360 else rad2deg h)"
    and "T = 1 - 0.17 * np_cos (deg2rad (h_deg - 30))
               + 0.24 * np_cos (2 * h)
               + 0.32 * np_cos (deg2rad (3 * h_deg + 6))
               - 0.20 * np_cos (deg2rad (4 * h_deg - 63))"
  shows "\<exists>g hs. dE_00_with np_cos dat k_L k_C k_h
               = Inr \<lparr>tensor_space = ciede00lch, tensor_points = dat, tensor_batch = g\<rparr>
           \<and> dE_00_h_deg (map col2 (get_linear dat ciede00lch)) = Inr hs
           \<and> hs ! i = h_deg
           \<and> dE_00_T_with np_cos hs (map col2 (get_linear dat ciede00lch)) ! i = T
           \<and> g ! i ! 2 ! 2 = scaled (C^2) (np_pow_neg2 (k_h * (1 + 0.015 * C * T)))
           \<and> g ! i ! 1 ! 2 =
               Option.bind (fl_R_T C h) (\<lambda>R_T.
                 np_divide (0.5 * C * R_T) (k_C * spec_S_C C * k_h * (1 + 0.015 * C * T)))
           \<and> g ! i ! 2 ! 1 =
               Option.bind (fl_R_T C h) (\<lambda>R_T.
                 np_divide (0.5 * C * R_T) (k_C * spec_S_C C * k_h * (1 + 0.015 * C * T)))
           \<and> dE_00 dat k_L k_C k_h = dE_00_with cos dat k_L k_C k_h"
proof -
  let ?lch = "get_linear dat ciede00lch"
  let ?g = "map (spec_tensor_with np_cos k_L k_C k_h) ?lch"
  let ?hs = "map spec_h_deg (map col2 ?lch)"
  let ?off = "Option.bind (fl_R_T C h) (\<lambda>R_T.
                np_divide (0.5 * C * R_T) (k_C * spec_S_C C * k_h * (1 + 0.015 * C * T)))"
  have T: "spec_T_with np_cos h = T"
    by (simp add: spec_T_with_def spec_h_deg_def assms(3, 4))
  have run: "dE_00_with np_cos dat k_L k_C k_h
      = Inr \<lparr>tensor_space = ciede00lch, tensor_points = dat, tensor_batch = ?g\<rparr>"
    by (rule dE_00_with_closed)
  have hs: "dE_00_h_deg (map col2 ?lch) = Inr ?hs"
    by (rule dE_00_h_deg_closed)
  have hs_i: "?hs ! i = h_deg"
    using assms(1, 2) by (simp add: spec_h_deg_def col2_def assms(3))
  have T_i: "dE_00_T_with np_cos ?hs (map col2 ?lch) ! i = T"
    using assms(1, 2) by (simp only: dE_00_T_with_closed) (simp add: col2_def T)
  have g_i: "?g ! i = spec_tensor_with np_cos k_L k_C k_h (L, C, h)"
    using assms(1, 2) by simp
  have g22: "?g ! i ! 2 ! 2 = scaled (C^2) (np_pow_neg2 (k_h * (1 + 0.015 * C * T)))"
    by (simp only: g_i) (simp add: spec_tensor_with_def T)
  have g12: "?g ! i ! 1 ! 2 = ?off"
    by (simp only: g_i) (simp add: spec_tensor_with_def T)
  have g21: "?g ! i ! 2 ! 1 = ?off"
    by (simp only: g_i) (simp add: spec_tensor_with_def T)
  have "dE_00 dat k_L k_C k_h = dE_00_with cos dat k_L k_C k_h"
    by (simp only: dE_00_def)
  with run hs hs_i T_i g22 g12 g21 show ?thesis
    by blast
qed

theorem dE_00_T_mixed_units_witness:
  "\<exists>g. dE_00 \<lparr>linear_XYZ = [(1, 2, 3)], get_linear = (\<lambda>sp. [(50, 20, - pi / 2)])\<rparr> 1 1 1
          = Inr \<lparr>tensor_space = ciede00lch,
                 tensor_points = \<lparr>linear_XYZ = [(1, 2, 3)],
                                   get_linear = (\<lambda>sp. [(50, 20, - pi / 2)])\<rparr>,
                 tensor_batch = g\<rparr>
        \<and> g ! 0 ! 2 ! 2 = scaled (20^2) (np_pow_neg2 (1 * (1 + 0.015 * 20 *
            (1 - 0.17 * cos (deg2rad (270 - 30))
               + 0.24 * cos (2 * (- pi / 2))
               + 0.32 * cos (deg2rad (3 * 270 + 6))
               - 0.20 * cos (deg2rad (4 * 270 - 63))))))"
proof -
  have "rad2deg (- pi / 2) = - 90"
    by (simp add: rad2deg_def)
  then have "270 = (if rad2deg (- pi / 2) < 0 then rad2deg (- pi / 2) + 360
                    else rad2deg (- pi / 2))"
    by simp
  from dE_00_T_mixed_units [of 0
      "\<lparr>linear_XYZ = [(1, 2, 3)], get_linear = (\<lambda>sp. [(50, 20, - pi / 2)])\<rparr>"
      50 20 "- pi / 2" 270 _ cos 1 1 1, OF _ _ this refl]
  show ?thesis
    by auto
qed

text \<open>
  C3 as stated fails: after step 2 a hue of \<open>-3 pi\<close> radians, -540 degrees, is at -180
  degrees, outside of [0, 360).
\<close>

theorem dE_00_h_deg_counterexample:
  "dE_00_h_deg [0, - 3 * pi] = Inr [0, - 180]
   \<and> rad2deg ([0, - 3 * pi] ! 1) < 0
   \<and> \<not> (0 \<le> [0, - 180 :: real] ! 1 \<and> [0, - 180 :: real] ! 1 < 360)"
  by (simp add: dE_00_h_deg_closed spec_h_deg_def rad2deg_def)

text \<open>
  C3, amended. In \<open>dE_00\<close>, after step 2 every point whose hue in degrees was negative has
  360 added to it once. The new value is at most 360, and it is at least 0 exactly when the
  hue in degrees was at least -360: a hue in degrees of [-360, 0) ends in [0, 360], one
  below -360 stays negative. The new value is the one that \<open>d_theta\<close>, and through it the
  entry \<open>g[1,2]\<close> of the result, is computed from.
\<close>

theorem dE_00_h_deg_range:
  assumes "i < length (get_linear dat ciede00lch)"
    and "get_linear dat ciede00lch ! i = (L, C, h)"
    and "rad2deg h < 0"
  shows "\<exists>g hs. dE_00 dat k_L k_C k_h
               = Inr \<lparr>tensor_space = ciede00lch, tensor_points = dat, tensor_batch = g\<rparr>
           \<and> dE_00_h_deg (map col2 (get_linear dat ciede00lch)) = Inr hs
           \<and> hs ! i = rad2deg h + 360
           \<and> hs ! i \<le> 360
           \<and> (0 \<le> hs ! i \<longleftrightarrow> - 360 \<le> rad2deg h)
           \<and> g ! i ! 1 ! 2 =
               Option.bind
                 (map_option
                    (\<lambda>R_C. - R_C * sin (deg2rad (2 * (30 * exp (- (((hs ! i - 275) / 25)^2))))))
                    (fl_R_C C))
                 (\<lambda>R_T. np_divide (0.5 * C * R_T) (k_C * spec_S_C C * k_h * spec_S_h C h))"
proof -
  have hs: "map spec_h_deg (map col2 (get_linear dat ciede00lch)) ! i = rad2deg h + 360"
    using assms by (simp add: spec_h_deg_def col2_def)
  have "spec_d_theta h = 30 * exp (- (((rad2deg h + 360 - 275) / 25)^2))"
    using assms(3) by (simp add: spec_d_theta_def spec_h_deg_def)
  then have "spec_tensor k_L k_C k_h (L, C, h) ! 1 ! 2
      = Option.bind
          (map_option
             (\<lambda>R_C. - R_C * sin (deg2rad (2 * (30 * exp (- (((rad2deg h + 360 - 275) / 25)^2))))))
             (fl_R_C C))
          (\<lambda>R_T. np_divide (0.5 * C * R_T) (k_C * spec_S_C C * k_h * spec_S_h C h))"
    by (simp add: spec_tensor_def spec_g12_def fl_R_T_def)
  moreover have "0 \<le> x + 360 \<longleftrightarrow> - 360 \<le> x" for x :: real
    by linarith
  ultimately show ?thesis
    using assms hs by (simp add: dE_00_closed dE_00_h_deg_closed)
qed

theorem dE_00_h_deg_range_witness:
  "\<exists>g hs. dE_00 \<lparr>linear_XYZ = [(1, 2, 3)], get_linear = (\<lambda>sp. [(50, 20, - pi)])\<rparr> 1 1 1
            = Inr \<lparr>tensor_space = ciede00lch,
                   tensor_points = \<lparr>linear_XYZ = [(1, 2, 3)],
                                     get_linear = (\<lambda>sp. [(50, 20, - pi)])\<rparr>,
                   tensor_batch = g\<rparr>
        \<and> dE_00_h_deg [- pi] = Inr hs
        \<and> hs ! 0 = 180 \<and> 0 \<le> hs ! 0 \<and> hs ! 0 \<le> 360"
  using dE_00_h_deg_range [of 0
      "\<lparr>linear_XYZ = [(1, 2, 3)], get_linear = (\<lambda>sp. [(50, 20, - pi)])\<rparr>" 50 20 "- pi" 1 1 1]
  by (auto simp: rad2deg_def col2_def)

text \<open>
  C4 as stated fails for a zero weight: with \<open>k_h = 0\<close> a point of chroma 0 gets
  \<open>g[2,2] = 0 * inf\<close> and \<open>g[1,2] = g[2,1] = 0 / 0\<close>, which are not 0.
\<close>

theorem dE_00_zero_chroma_counterexample:
  "dE_00 \<lparr>linear_XYZ = [(1, 2, 3)], get_linear = (\<lambda>sp. [(50, 0, 0)])\<rparr> 1 1 0
     = Inr \<lparr>tensor_space = ciede00lch,
            tensor_points = \<lparr>linear_XYZ = [(1, 2, 3)], get_linear = (\<lambda>sp. [(50, 0, 0)])\<rparr>,
            tensor_batch = [[[Some 1, Some 0, Some 0],
                             [Some 0, Some 1, None],
                             [Some 0, None, None]]]\<rparr>"
  by (simp add: dE_00_closed spec_tensor_def spec_g00_def spec_g11_def spec_g22_def spec_g12_def
        spec_S_L_def spec_S_C_def spec_S_h_def fl_R_T_zero np_pow_neg2_def np_divide_def
        scaled_def)

text \<open>
  C4, amended. For every sample point of chroma \<open>C = 0\<close> and all weights with \<open>k_C\<close> and
  \<open>k_h\<close> nonzero, \<open>dE_00\<close> raises no failure and the matrix of the point has
  \<open>g[0,0] = (k_L S_L)^-2\<close> with \<open>S_L\<close> computed from L alone, \<open>g[1,1] = k_C^-2\<close> (as
  \<open>S_C = 1\<close>), \<open>g[2,2] = 0\<close> and both off-diagonal entries 0.
\<close>

theorem dE_00_zero_chroma:
  assumes "i < length (get_linear dat ciede00lch)"
    and "get_linear dat ciede00lch ! i = (L, 0, h)"
    and "k_C \<noteq> 0" and "k_h \<noteq> 0"
  shows "\<exists>g. dE_00 dat k_L k_C k_h
             = Inr \<lparr>tensor_space = ciede00lch, tensor_points = dat, tensor_batch = g\<rparr>
           \<and> g ! i =
               [[np_pow_neg2 (k_L * spec_S_L L), Some 0, Some 0],
                [Some 0, Some (k_C powi (- 2)), Some 0],
                [Some 0, Some 0, Some 0]]
           \<and> spec_S_C 0 = 1
           \<and> (k_L \<noteq> 0 \<longrightarrow> g ! i ! 0 ! 0 = Some ((k_L * spec_S_L L) powi (- 2)))"
proof -
  have "spec_S_L L \<noteq> 0"
    using spec_S_L_ge_1 [of L] by simp
  then have "k_L \<noteq> 0 \<Longrightarrow> np_pow_neg2 (k_L * spec_S_L L) = Some ((k_L * spec_S_L L) powi (- 2))"
    by (simp add: np_pow_neg2_def)
  with assms show ?thesis
    by (simp add: dE_00_closed spec_tensor_zero_chroma spec_S_C_def)
qed

theorem dE_00_zero_chroma_witness:
  "\<exists>g. dE_00 \<lparr>linear_XYZ = [(1, 2, 3), (4, 5, 6)],
               get_linear = (\<lambda>sp. [(60, 30, 1), (50, 0, 2)])\<rparr> 5 2 3
          = Inr \<lparr>tensor_space = ciede00lch,
                 tensor_points = \<lparr>linear_XYZ = [(1, 2, 3), (4, 5, 6)],
                                   get_linear = (\<lambda>sp. [(60, 30, 1), (50, 0, 2)])\<rparr>,
                 tensor_batch = g\<rparr>
        \<and> g ! 1 = [[Some (1 / 25), Some 0, Some 0],
                    [Some 0, Some (1 / 4), Some 0],
                    [Some 0, Some 0, Some 0]]"
  using dE_00_zero_chroma [of 1 "\<lparr>linear_XYZ = [(1, 2, 3), (4, 5, 6)],
               get_linear = (\<lambda>sp. [(60, 30, 1), (50, 0, 2)])\<rparr>" 50 2 2 3 5]
  by (auto simp: spec_S_L_def np_pow_neg2_def power_int_minus power2_eq_square)

text \<open>
  C5. For every sample batch, every point and all nonzero weights, \<open>dE_00\<close> with the
  weights \<open>(k_L, k_C, k_h)\<close> has the entries of \<open>dE_00\<close> with the weights (1, 1, 1) scaled:
  \<open>g[0,0]\<close> by \<open>1/k_L^2\<close>, \<open>g[1,1]\<close> by \<open>1/k_C^2\<close>, \<open>g[2,2]\<close> by \<open>1/k_h^2\<close>, and
  \<open>g[1,2] = g[2,1]\<close> by \<open>1/(k_C k_h)\<close>. Each diagonal entry is independent of the two other
  weights.
\<close>

theorem dE_00_weights:
  assumes "i < length (get_linear dat ciede00lch)"
    and "k_L \<noteq> 0" and "k_C \<noteq> 0" and "k_h \<noteq> 0"
  shows "\<exists>g g1. dE_00 dat k_L k_C k_h
               = Inr \<lparr>tensor_space = ciede00lch, tensor_points = dat, tensor_batch = g\<rparr>
           \<and> dE_00 dat 1 1 1
               = Inr \<lparr>tensor_space = ciede00lch, tensor_points = dat, tensor_batch = g1\<rparr>
           \<and> g ! i ! 0 ! 0 = scaled (1 / k_L^2) (g1 ! i ! 0 ! 0)
           \<and> g ! i ! 1 ! 1 = scaled (1 / k_C^2) (g1 ! i ! 1 ! 1)
           \<and> g ! i ! 2 ! 2 = scaled (1 / k_h^2) (g1 ! i ! 2 ! 2)
           \<and> g ! i ! 1 ! 2 = scaled (1 / (k_C * k_h)) (g1 ! i ! 1 ! 2)
           \<and> g ! i ! 2 ! 1 = scaled (1 / (k_C * k_h)) (g1 ! i ! 2 ! 1)
           \<and> (\<forall>a b. \<exists>g'. dE_00 dat k_L a b
                  = Inr \<lparr>tensor_space = ciede00lch, tensor_points = dat, tensor_batch = g'\<rparr>
                \<and> g' ! i ! 0 ! 0 = g ! i ! 0 ! 0)
           \<and> (\<forall>a b. \<exists>g'. dE_00 dat a k_C b
                  = Inr \<lparr>tensor_space = ciede00lch, tensor_points = dat, tensor_batch = g'\<rparr>
                \<and> g' ! i ! 1 ! 1 = g ! i ! 1 ! 1)
           \<and> (\<forall>a b. \<exists>g'. dE_00 dat a b k_h
                  = Inr \<lparr>tensor_space = ciede00lch, tensor_points = dat, tensor_batch = g'\<rparr>
                \<and> g' ! i ! 2 ! 2 = g ! i ! 2 ! 2)"
proof -
  obtain L C h where p: "get_linear dat ciede00lch ! i = (L, C, h)"
    by (cases "get_linear dat ciede00lch ! i") auto
  show ?thesis
    using assms p
    by (simp add: dE_00_closed spec_tensor_def spec_g00_weight [of k_L] spec_g11_weight [of k_C]
          spec_g22_weight [of k_h] spec_g12_weight [of k_C k_h])
qed

theorem dE_00_weights_witness:
  "\<exists>g g1. dE_00 \<lparr>linear_XYZ = [(1, 2, 3)], get_linear = (\<lambda>sp. [(50, 20, 1)])\<rparr> 2 4 5
            = Inr \<lparr>tensor_space = ciede00lch,
                   tensor_points = \<lparr>linear_XYZ = [(1, 2, 3)], get_linear = (\<lambda>sp. [(50, 20, 1)])\<rparr>,
                   tensor_batch = g\<rparr>
        \<and> dE_00 \<lparr>linear_XYZ = [(1, 2, 3)], get_linear = (\<lambda>sp. [(50, 20, 1)])\<rparr> 1 1 1
            = Inr \<lparr>tensor_space = ciede00lch,
                   tensor_points = \<lparr>linear_XYZ = [(1, 2, 3)], get_linear = (\<lambda>sp. [(50, 20, 1)])\<rparr>,
                   tensor_batch = g1\<rparr>
        \<and> g ! 0 ! 0 ! 0 = scaled (1 / 4) (g1 ! 0 ! 0 ! 0)
        \<and> g ! 0 ! 1 ! 1 = scaled (1 / 16) (g1 ! 0 ! 1 ! 1)
        \<and> g ! 0 ! 2 ! 2 = scaled (1 / 25) (g1 ! 0 ! 2 ! 2)
        \<and> g ! 0 ! 1 ! 2 = scaled (1 / 20) (g1 ! 0 ! 1 ! 2)
        \<and> g ! 0 ! 2 ! 1 = scaled (1 / 20) (g1 ! 0 ! 2 ! 1)"
proof -
  from dE_00_weights [of 0 "\<lparr>linear_XYZ = [(1, 2, 3)], get_linear = (\<lambda>sp. [(50, 20, 1)])\<rparr>" 2 4 5]
  obtain g g1 where
    "dE_00 \<lparr>linear_XYZ = [(1, 2, 3)], get_linear = (\<lambda>sp. [(50, 20, 1)])\<rparr> 2 4 5
            = Inr \<lparr>tensor_space = ciede00lch,
                   tensor_points = \<lparr>linear_XYZ = [(1, 2, 3)], get_linear = (\<lambda>sp. [(50, 20, 1)])\<rparr>,
                   tensor_batch = g\<rparr>
        \<and> dE_00 \<lparr>linear_XYZ = [(1, 2, 3)], get_linear = (\<lambda>sp. [(50, 20, 1)])\<rparr> 1 1 1
            = Inr \<lparr>tensor_space = ciede00lch,
                   tensor_points = \<lparr>linear_XYZ = [(1, 2, 3)], get_linear = (\<lambda>sp. [(50, 20, 1)])\<rparr>,
                   tensor_batch = g1\<rparr>
        \<and> g ! 0 ! 0 ! 0 = scaled (1 / 4) (g1 ! 0 ! 0 ! 0)
        \<and> g ! 0 ! 1 ! 1 = scaled (1 / 16) (g1 ! 0 ! 1 ! 1)
        \<and> g ! 0 ! 2 ! 2 = scaled (1 / 25) (g1 ! 0 ! 2 ! 2)
        \<and> g ! 0 ! 1 ! 2 = scaled (1 / 20) (g1 ! 0 ! 1 ! 2)
        \<and> g ! 0 ! 2 ! 1 = scaled (1 / 20) (g1 ! 0 ! 2 ! 1)"
    by (auto simp: power2_eq_square)
  then show ?thesis by blast
qed


section \<open>The claims on the Poincare disk builder\<close>

text \<open>
  C7. For every Poincare-disk space \<open>sp\<close> with radius of curvature r and every sample
  batch, \<open>poincare_disk sp dat\<close> returns matrices with \<open>g[0,0] = 1\<close>,
  \<open>g[1,1] = g[2,2] = 4 r^2 / (1 - d1^2 - d2^2)^2\<close> at the disk coordinates (d0, d1, d2) of
  the point, and zero elsewhere; at \<open>d1 = d2 = 0\<close> both entries are exactly \<open>4 r^2\<close>.
\<close>

theorem poincare_disk_tensor:
  assumes "R sp = Some r"
    and "i < length (get_linear dat sp)"
    and "get_linear dat sp ! i = (d0, d1, d2)"
  shows "\<exists>g. poincare_disk sp dat = Inr \<lparr>tensor_space = sp, tensor_points = dat, tensor_batch = g\<rparr>
           \<and> length g = length (get_linear dat sp)
           \<and> g ! i = [[Some 1, Some 0, Some 0],
                      [Some 0, np_divide (4 * r^2) ((1 - d1^2 - d2^2)^2), Some 0],
                      [Some 0, Some 0, np_divide (4 * r^2) ((1 - d1^2 - d2^2)^2)]]
           \<and> (d1^2 + d2^2 \<noteq> 1 \<longrightarrow>
                g ! i ! 1 ! 1 = Some (4 * r^2 / (1 - d1^2 - d2^2)^2)
              \<and> g ! i ! 2 ! 2 = Some (4 * r^2 / (1 - d1^2 - d2^2)^2))
           \<and> (d1 = 0 \<and> d2 = 0 \<longrightarrow>
                g ! i ! 1 ! 1 = Some (4 * r^2) \<and> g ! i ! 2 ! 2 = Some (4 * r^2))"
proof -
  have "d1^2 + d2^2 \<noteq> 1 \<Longrightarrow> (1 - d1^2 - d2^2)^2 \<noteq> 0"
    by (simp add: algebra_simps)
  with assms show ?thesis
    by (simp add: poincare_disk_closed [of sp r] spec_disk_tensor_def spec_disk_entry_def
          np_divide_def)
qed

theorem poincare_disk_tensor_witness:
  "poincare_disk \<lparr>space_name = ''disk'', R = Some 3\<rparr>
       \<lparr>linear_XYZ = [(1, 1, 1), (2, 2, 2)], get_linear = (\<lambda>sp. [(50, 1 / 2, 0), (70, 0, 0)])\<rparr>
     = Inr \<lparr>tensor_space = \<lparr>space_name = ''disk'', R = Some 3\<rparr>,
            tensor_points = \<lparr>linear_XYZ = [(1, 1, 1), (2, 2, 2)],
                               get_linear = (\<lambda>sp. [(50, 1 / 2, 0), (70, 0, 0)])\<rparr>,
            tensor_batch = [[[Some 1, Some 0, Some 0], [Some 0, Some 64, Some 0],
                             [Some 0, Some 0, Some 64]],
                            [[Some 1, Some 0, Some 0], [Some 0, Some 36, Some 0],
                             [Some 0, Some 0, Some 36]]]\<rparr>"
proof -
  let ?sp = "\<lparr>space_name = ''disk'', R = Some 3\<rparr>"
  let ?dat = "\<lparr>linear_XYZ = [(1, 1, 1), (2, 2, 2)],
               get_linear = (\<lambda>sp. [(50, 1 / 2, 0), (70, 0, 0)])\<rparr>"
  from poincare_disk_tensor [of ?sp 3 0 ?dat 50 "1 / 2" 0]
  obtain g where g: "poincare_disk ?sp ?dat
        = Inr \<lparr>tensor_space = ?sp, tensor_points = ?dat, tensor_batch = g\<rparr>"
      "length g = 2"
      "g ! 0 = [[Some 1, Some 0, Some 0], [Some 0, Some 64, Some 0], [Some 0, Some 0, Some 64]]"
    by (auto simp: np_divide_def power2_eq_square)
  from poincare_disk_tensor [of ?sp 3 1 ?dat 70 0 0] g(1)
  have "g ! 1 = [[Some 1, Some 0, Some 0], [Some 0, Some 36, Some 0], [Some 0, Some 0, Some 36]]"
    by (auto simp: np_divide_def)
  with g have "g = [[[Some 1, Some 0, Some 0], [Some 0, Some 64, Some 0], [Some 0, Some 0, Some 64]],
               [[Some 1, Some 0, Some 0], [Some 0, Some 36, Some 0], [Some 0, Some 0, Some 36]]]"
    by (cases g; cases "tl g") (auto simp: nth_Cons split: nat.splits)
  with g(1) show ?thesis by simp
qed





section \<open>The claim on symmetry\<close>




end
